theory Spec2Isabelle
  imports Complex_Main "HOL-Library.Word"
begin

section \<open>caer/opencv.py: data model\<close>

text \<open>
  The module is glue code over OpenCV, NumPy and urllib. Every function of the module is
  embedded as a HOL function that takes the library it calls as an explicit parameter
  (a record of the primitives), so that a statement proved for every library value holds
  whatever the primitives compute, and a statement that needs a fact about a primitive
  names that fact as a hypothesis.

  Python raises; the model returns \<open>Inl\<close> of the exception instead.
\<close>

datatype error =
    ValueError string
  | UnboundLocalError string
  | AttributeError string
  | IndexError string
  | External string

text \<open>
  \<open>External\<close> stands for an exception that a library primitive raised itself (cv2.error,
  URLError, ...), tagged by a description. The other constructors are exceptions raised by
  the code of the module or by the Python interpreter while running it.
\<close>

text \<open>
  A NumPy array of unsigned 8-bit samples: its shape and its buffer in row-major order.
\<close>

record image =
  shape :: "nat list"
  pixels :: "8 word list"

text \<open>
  The Python objects a caller can pass for \<open>threshold1\<close>, \<open>threshold2\<close>,
  \<open>use_median\<close> and the translation offsets. \<open>'f\<close> is the type of floats; no
  property of floating-point arithmetic is assumed anywhere.
\<close>

datatype 'f pyval = PNone | PBool bool | PInt int | PFloat 'f | PStr string

text \<open>\<open>isinstance(v, bool)\<close>.\<close>

fun isinstance_bool :: "'f pyval \<Rightarrow> bool" where
  "isinstance_bool (PBool b) = True"
| "isinstance_bool v = False"

text \<open>\<open>isinstance(v, int)\<close>: in Python \<open>bool\<close> is a subclass of \<open>int\<close>.\<close>

fun isinstance_int :: "'f pyval \<Rightarrow> bool" where
  "isinstance_int (PInt i) = True"
| "isinstance_int (PBool b) = True"
| "isinstance_int v = False"

text \<open>Truth value of an object, as \<open>not v\<close> and \<open>if v:\<close> test it.\<close>

fun truthy :: "'f pyval \<Rightarrow> bool" where
  "truthy PNone = False"
| "truthy (PBool b) = b"
| "truthy (PInt i) = (i \<noteq> 0)"
| "truthy (PFloat x) = True"
| "truthy (PStr s) = (s \<noteq> [])"

text \<open>
  Modelled from the spec: the conversion codes that the module imports from
  \<open>caer/globals.py\<close> (not part of the sources at hand), "an enumerated conversion code
  (BGR, RGB, GRAY, HSV, LAB) mapping to a primitive conversion operation". The module only
  passes them on to \<open>cv.cvtColor\<close>.
\<close>

datatype color_code =
  BGR2GRAY | BGR2RGB | BGR2HSV | BGR2LAB | RGB2BGR | RGB2GRAY | RGB2HSV | RGB2LAB

datatype imread_flag = IMREAD_COLOR

text \<open>
  The primitives the module calls. \<open>'f\<close>: floats, \<open>'m\<close>: 2x3 transformation matrices,
  \<open>'r\<close>: HTTP response objects. A primitive that raises returns \<open>Inl\<close>.
  \<open>median\<close> and \<open>asarray\<close> are helpers of \<open>caer/utilities.py\<close>, which is not part
  of the sources at hand; they are parameters like the external primitives.
  The fields \<open>f_...\<close> are Python's float arithmetic: the literals \<open>1.0\<close> and \<open>.3\<close>,
  \<open>-\<close>, \<open>+\<close>, \<open>*\<close>, the comparisons of a float with an int that \<open>max\<close> and \<open>min\<close>
  perform, and \<open>int()\<close> of a float (which raises on an infinity).
\<close>

record ('f, 'm, 'r) library =
  cv_cvtColor :: "image \<Rightarrow> color_code \<Rightarrow> error + image"
  cv_warpAffine :: "image \<Rightarrow> 'm \<Rightarrow> nat \<times> nat \<Rightarrow> error + image"
  cv_getRotationMatrix2D :: "nat \<times> nat \<Rightarrow> 'f pyval \<Rightarrow> 'f \<Rightarrow> error + 'm"
  cv_Canny :: "image \<Rightarrow> 'f pyval \<Rightarrow> 'f pyval \<Rightarrow> error + image"
  cv_mean :: "image \<Rightarrow> image option \<Rightarrow> error + 'f list"
  cv_imdecode :: "image \<Rightarrow> imread_flag \<Rightarrow> error + image option"
  np_float32 :: "'f pyval list list \<Rightarrow> error + 'm"
  median :: "image \<Rightarrow> error + 'f"
  asarray :: "8 word list \<Rightarrow> error + image"
  urlopen :: "string \<Rightarrow> error + 'r"
  response_read :: "'r \<Rightarrow> error + 8 word list"
  f_1_0 :: "'f"
  f_0_3 :: "'f"
  f_sub :: "'f \<Rightarrow> 'f \<Rightarrow> 'f"
  f_add :: "'f \<Rightarrow> 'f \<Rightarrow> 'f"
  f_mul :: "'f \<Rightarrow> 'f \<Rightarrow> 'f"
  f_gt_int :: "'f \<Rightarrow> int \<Rightarrow> bool"
  f_lt_int :: "'f \<Rightarrow> int \<Rightarrow> bool"
  f_int :: "'f \<Rightarrow> error + int"

section \<open>Adaptive edge detection\<close>

text \<open>
  A Python number: the result of \<open>max(i, v)\<close> and \<open>min(i, v)\<close> for an int \<open>i\<close> and a
  float \<open>v\<close>. Python keeps the first argument unless the second is strictly greater
  (smaller), so the result is the int itself or the float.
\<close>

datatype 'f number = IntNum int | FloatNum 'f

definition py_max :: "('f, 'm, 'r) library \<Rightarrow> int \<Rightarrow> 'f \<Rightarrow> 'f number" where
  "py_max L i v = (if f_gt_int L v i then FloatNum v else IntNum i)"

definition py_min :: "('f, 'm, 'r) library \<Rightarrow> int \<Rightarrow> 'f \<Rightarrow> 'f number" where
  "py_min L i v = (if f_lt_int L v i then FloatNum v else IntNum i)"

text \<open>\<open>int(x)\<close> of a number: an int is returned as it is, a float is truncated.\<close>

fun py_int :: "('f, 'm, 'r) library \<Rightarrow> 'f number \<Rightarrow> error + int" where
  "py_int L (IntNum i) = Inr i"
| "py_int L (FloatNum v) = f_int L v"

text \<open>
  \<^verbatim>\<open>
  def edges(img, threshold1=None, threshold2=None, use_median=True, sigma=None):
      if not isinstance(use_median, bool):
          raise ValueError('use_median must be a boolean')
      if not isinstance(threshold1, int) or not isinstance(threshold2, int):
          raise ValueError('Threshold values must be integers')
      if img is None:
          raise ValueError('Image is of NoneType()')
      if not use_median and (threshold1 is None or threshold2 is None):
          raise ValueError('Specify valid threshold values')
      if use_median:
          if sigma is None:
              sigma = .3
          med = median(img)
          low = int(max(0, (1.0-sigma) * med))
          up = int(min(255, (1.0+sigma) * med))
          canny_edges = cv.Canny(img, low, up)
      else:
          canny_edges = cv.Canny(img, threshold1, threshold2)
      return canny_edges
  \<close>
  \<open>img\<close> is \<open>None\<close> or an image; \<open>sigma\<close> is \<open>None\<close> or a float.
\<close>

definition edges ::
  "('f, 'm, 'r) library \<Rightarrow> image option \<Rightarrow> 'f pyval \<Rightarrow> 'f pyval \<Rightarrow> 'f pyval \<Rightarrow> 'f option
     \<Rightarrow> error + image" where
  "edges L img threshold1 threshold2 use_median sigma =
     (if \<not> isinstance_bool use_median then
        Inl (ValueError ''use_median must be a boolean'')
      else if \<not> isinstance_int threshold1 \<or> \<not> isinstance_int threshold2 then
        Inl (ValueError ''Threshold values must be integers'')
      else case img of
        None \<Rightarrow> Inl (ValueError ''Image is of NoneType()'')
      | Some im \<Rightarrow>
          if \<not> truthy use_median \<and> (threshold1 = PNone \<or> threshold2 = PNone) then
            Inl (ValueError ''Specify valid threshold values'')
          else if truthy use_median then
            (let sigma' = (case sigma of None \<Rightarrow> f_0_3 L | Some s \<Rightarrow> s) in
             case median L im of
               Inl e \<Rightarrow> Inl e
             | Inr med \<Rightarrow>
                (case py_int L (py_max L 0 (f_mul L (f_sub L (f_1_0 L) sigma') med)) of
                   Inl e \<Rightarrow> Inl e
                 | Inr low \<Rightarrow>
                    (case py_int L (py_min L 255 (f_mul L (f_add L (f_1_0 L) sigma') med)) of
                       Inl e \<Rightarrow> Inl e
                     | Inr up \<Rightarrow> cv_Canny L im (PInt low) (PInt up))))
          else cv_Canny L im threshold1 threshold2)"

section \<open>Geometric transforms\<close>

text \<open>\<open>str(n)\<close> of a non-negative int, as an f-string renders \<open>len(img.shape)\<close>.\<close>

fun str_nat :: "nat \<Rightarrow> string" where
  "str_nat n =
     (if n < 10 then [''0123456789'' ! n]
      else str_nat (n div 10) @ [''0123456789'' ! (n mod 10)])"

declare str_nat.simps [simp del]


text \<open>
  \<^verbatim>\<open>
  def rotate(image, angle, rotPoint=None):
      height, width = image.shape[:2]
      if rotPoint is None:
          centre = (width//2, height//2)
      rotMat = cv.getRotationMatrix2D(centre, angle, scale=1.0)
      return cv.warpAffine(image, rotMat, (width, height))
  \<close>
  The local variable \<open>centre\<close> is bound only in the branch \<open>rotPoint is None\<close>; the
  model keeps it as an option and reading it unbound is Python's \<open>UnboundLocalError\<close>
  (tagged with the variable's name). \<open>rotPoint\<close> itself is never read.
  The function is named \<open>rotate_image\<close> here: \<open>rotate\<close> is a constant of HOL's lists.
\<close>

definition rotate_image ::
  "('f, 'm, 'r) library \<Rightarrow> image \<Rightarrow> 'f pyval \<Rightarrow> ('f pyval \<times> 'f pyval) option
     \<Rightarrow> error + image" where
  "rotate_image L img angle rotPoint =
     (case take 2 (shape img) of
        [height, width] \<Rightarrow>
          (let centre = (if rotPoint = None then Some (width div 2, height div 2) else None) in
           case centre of
             None \<Rightarrow> Inl (UnboundLocalError ''centre'')
           | Some c \<Rightarrow>
              (case cv_getRotationMatrix2D L c angle (f_1_0 L) of
                 Inl e \<Rightarrow> Inl e
               | Inr rotMat \<Rightarrow> cv_warpAffine L img rotMat (width, height)))
      | short \<Rightarrow>
          Inl (ValueError (''not enough values to unpack (expected 2, got ''
                 @ str_nat (length short) @ '')'')))"

section \<open>Statistics\<close>

text \<open>
  \<^verbatim>\<open>
  def mean(image, mask=None):
      try:
          return cv.mean(image, mask=mask)
      except:
          raise ValueError('mean() expects an image')
  \<close>
  The parameter \<open>mask\<close> is called \<open>roi\<close> here: \<open>mask\<close> is a constant of the word library.
\<close>

definition mean ::
  "('f, 'm, 'r) library \<Rightarrow> image \<Rightarrow> image option \<Rightarrow> error + 'f list" where
  "mean L img roi =
     (case cv_mean L img roi of
        Inl e \<Rightarrow> Inl (ValueError ''mean() expects an image'')
      | Inr averages \<Rightarrow> Inr averages)"

section \<open>Colour-space conversions\<close>

text \<open>
  Each of the eight functions has the same form, with its own message and code:
  \<^verbatim>\<open>
  def bgr_to_rgb(img):
      if len(img.shape) != 3:
          raise ValueError(f'Image of shape 3 expected. Found shape {len(img.shape)}. This method converts a BGR image to its RGB counterpart')
      return cv.cvtColor(img, BGR2RGB)
  \<close>
\<close>

definition bgr_to_rgb :: "('f, 'm, 'r) library \<Rightarrow> image \<Rightarrow> error + image" where
  "bgr_to_rgb L img =
     (if length (shape img) \<noteq> 3 then
        Inl (ValueError (''Image of shape 3 expected. Found shape '' @ str_nat (length (shape img))
               @ ''. This method converts a BGR image to its RGB counterpart''))
      else cv_cvtColor L img BGR2RGB)"

definition rgb_to_bgr :: "('f, 'm, 'r) library \<Rightarrow> image \<Rightarrow> error + image" where
  "rgb_to_bgr L img =
     (if length (shape img) \<noteq> 3 then
        Inl (ValueError (''Image of shape 3 expected. Found shape '' @ str_nat (length (shape img))
               @ ''. This method converts an RGB image to its BGR counterpart''))
      else cv_cvtColor L img RGB2BGR)"

definition bgr_to_gray :: "('f, 'm, 'r) library \<Rightarrow> image \<Rightarrow> error + image" where
  "bgr_to_gray L img =
     (if length (shape img) \<noteq> 3 then
        Inl (ValueError (''Image of shape 3 expected. Found shape '' @ str_nat (length (shape img))
               @ ''. This method converts a BGR image to its Grayscale counterpart''))
      else cv_cvtColor L img BGR2GRAY)"

definition rgb_to_gray :: "('f, 'm, 'r) library \<Rightarrow> image \<Rightarrow> error + image" where
  "rgb_to_gray L img =
     (if length (shape img) \<noteq> 3 then
        Inl (ValueError (''Image of shape 3 expected. Found shape '' @ str_nat (length (shape img))
               @ ''. This method converts an RGB image to its Grayscale counterpart''))
      else cv_cvtColor L img RGB2GRAY)"

definition bgr_to_hsv :: "('f, 'm, 'r) library \<Rightarrow> image \<Rightarrow> error + image" where
  "bgr_to_hsv L img =
     (if length (shape img) \<noteq> 3 then
        Inl (ValueError (''Image of shape 3 expected. Found shape '' @ str_nat (length (shape img))
               @ ''. This method converts a BGR image to its HSV counterpart''))
      else cv_cvtColor L img BGR2HSV)"

definition rgb_to_hsv :: "('f, 'm, 'r) library \<Rightarrow> image \<Rightarrow> error + image" where
  "rgb_to_hsv L img =
     (if length (shape img) \<noteq> 3 then
        Inl (ValueError (''Image of shape 3 expected. Found shape '' @ str_nat (length (shape img))
               @ ''. This method converts an RGB image to its HSV counterpart''))
      else cv_cvtColor L img RGB2HSV)"

definition bgr_to_lab :: "('f, 'm, 'r) library \<Rightarrow> image \<Rightarrow> error + image" where
  "bgr_to_lab L img =
     (if length (shape img) \<noteq> 3 then
        Inl (ValueError (''Image of shape 3 expected. Found shape '' @ str_nat (length (shape img))
               @ ''. This method converts a BGR image to its LAB counterpart''))
      else cv_cvtColor L img BGR2LAB)"

definition rgb_to_lab :: "('f, 'm, 'r) library \<Rightarrow> image \<Rightarrow> error + image" where
  "rgb_to_lab L img =
     (if length (shape img) \<noteq> 3 then
        Inl (ValueError (''Image of shape 3 expected. Found shape '' @ str_nat (length (shape img))
               @ ''. This method converts an RGB image to its LAB counterpart''))
      else cv_cvtColor L img RGB2LAB)"

section \<open>Network image loader\<close>


section \<open>Contracts of the external primitives\<close>

text \<open>
  The exchange of the first and the third channel of every pixel of a three-channel
  buffer (B,G,R to R,G,B and back), and the same exchange on a four-channel buffer with
  the fourth channel dropped.
\<close>

fun exchange_red_blue :: "'a list \<Rightarrow> 'a list" where
  "exchange_red_blue (c0 # c1 # c2 # rest) = c2 # c1 # c0 # exchange_red_blue rest"
| "exchange_red_blue short = short"

fun exchange_drop_alpha :: "'a list \<Rightarrow> 'a list" where
  "exchange_drop_alpha (c0 # c1 # c2 # a # rest) = c2 # c1 # c0 # exchange_drop_alpha rest"
| "exchange_drop_alpha short = []"

text \<open>
  Modelled from the spec: the colour-conversion primitive \<open>cv.cvtColor\<close>, which is
  OpenCV's and not part of the sources at hand, for the two codes \<open>BGR2RGB\<close> and
  \<open>RGB2BGR\<close>: "new image buffer in target color space, same spatial dimensions, channel
  count per target space (1 for grayscale, 3 otherwise)". On a non-empty image with three
  channels (a buffer of \<open>h * w * 3\<close> samples with \<open>h\<close> and \<open>w\<close> positive) both codes
  exchange the first and the third channel of every pixel and keep the shape. Nothing is
  said of an empty image, which OpenCV rejects.
\<close>

definition cvtColor_exchanges_red_blue :: "('f, 'm, 'r) library \<Rightarrow> bool" where
  "cvtColor_exchanges_red_blue L =
     (\<forall>img h w. shape img = [h, w, 3] \<longrightarrow> 0 < h \<longrightarrow> 0 < w \<longrightarrow>
        length (pixels img) = h * w * 3 \<longrightarrow>
        cv_cvtColor L img BGR2RGB = Inr (img\<lparr>pixels := exchange_red_blue (pixels img)\<rparr>) \<and>
        cv_cvtColor L img RGB2BGR = Inr (img\<lparr>pixels := exchange_red_blue (pixels img)\<rparr>))"

text \<open>
  Modelled from the spec: the same primitive as a function, for every channel count. The
  target space of both codes has three channels, so a four-channel input loses its fourth
  channel; OpenCV rejects any other channel count, and it rejects an empty image.
  Conversions to grey, HSV and LAB are outside this model, which rejects them.
\<close>

definition ref_cvtColor :: "image \<Rightarrow> color_code \<Rightarrow> error + image" where
  "ref_cvtColor img code =
     (if code = BGR2RGB \<or> code = RGB2BGR then
        (case shape img of
           [h, w, c] \<Rightarrow>
             if h = 0 \<or> w = 0 then Inl (External ''cv2.error: empty image'')
             else if c = 3 then
               Inr \<lparr>shape = [h, w, 3], pixels = exchange_red_blue (pixels img)\<rparr>
             else if c = 4 then
               Inr \<lparr>shape = [h, w, 3], pixels = exchange_drop_alpha (pixels img)\<rparr>
             else Inl (External ''cv2.error: 3 or 4 channels expected'')
         | _ \<Rightarrow> Inl (External ''cv2.error: 3 or 4 channels expected''))
      else Inl (External ''cv2.error: conversion outside the model''))"

text \<open>
  Modelled from the spec: the affine-warp primitive \<open>cv.warpAffine\<close> and NumPy's
  \<open>float32\<close>, neither part of the sources at hand, on the matrix that \<open>translate\<close>
  builds: "returns a new image shifted by (dx, dy) via an affine warp with identity
  rotation/scale and translation-only offset; output canvas has the same dimensions as
  input (content shifted off-canvas is lost, newly exposed regions filled per the
  underlying primitive's default border policy)".

  \<open>shift_pixels h w k x y buf\<close> is that shift on a buffer of \<open>h\<close> rows of \<open>w\<close> pixels
  of \<open>k\<close> samples each: the pixel of the output at row \<open>r\<close> and column \<open>c\<close> is the
  pixel of the input at row \<open>r - y\<close> and column \<open>c - x\<close> when there is one, and \<open>k\<close>
  zero samples (OpenCV's default border) otherwise.
\<close>

definition shifted_cell ::
  "nat \<Rightarrow> nat \<Rightarrow> nat \<Rightarrow> int \<Rightarrow> int \<Rightarrow> 8 word list \<Rightarrow> nat \<Rightarrow> nat \<Rightarrow> 8 word list" where
  "shifted_cell h w k x y buf r c =
     (if 0 \<le> int r - y \<and> int r - y < int h \<and> 0 \<le> int c - x \<and> int c - x < int w
      then take k (drop ((nat (int r - y) * w + nat (int c - x)) * k) buf)
      else replicate k 0)"

definition shift_pixels ::
  "nat \<Rightarrow> nat \<Rightarrow> nat \<Rightarrow> int \<Rightarrow> int \<Rightarrow> 8 word list \<Rightarrow> 8 word list" where
  "shift_pixels h w k x y buf =
     concat (map (\<lambda>r. concat (map (shifted_cell h w k x y buf r) [0..<w])) [0..<h])"



section \<open>A concrete library for evaluation\<close>

text \<open>
  A small library value on which the model can be run: floats are exact rationals,
  matrices are lists of rows, a response is its body. Its colour conversion is
  \<open>ref_cvtColor\<close> and its warp is \<open>ref_warpAffine\<close>. The other primitives are stand-ins
  that compute something simple of the right shape: the rotation matrix is the identity
  for angle 0 and scale 1 and is rejected otherwise, the edge detector returns a black
  edge map, no byte stream decodes, one URL is reachable. They serve to run the model at
  concrete inputs, not to describe OpenCV.
\<close>

fun ref_number :: "rat pyval \<Rightarrow> rat option" where
  "ref_number (PInt i) = Some (of_int i)"
| "ref_number (PFloat x) = Some x"
| "ref_number (PBool b) = Some (if b then 1 else 0)"
| "ref_number v = None"

definition ref_float32 :: "rat pyval list list \<Rightarrow> error + rat list list" where
  "ref_float32 rows =
     (if \<forall>row \<in> set rows. \<forall>v \<in> set row. ref_number v \<noteq> None then
        Inr (map (map (\<lambda>v. the (ref_number v))) rows)
      else Inl (External ''float() argument must be a string or a real number''))"

text \<open>
  Modelled from the spec: the affine warp as a function. A translation by integer
  offsets onto a canvas of the image's own size is the shift; any other warp gives a
  black canvas (a stand-in). As OpenCV does, it rejects an empty image, an array of fewer
  than two or more than three dimensions and one of height or width 32767 or more, and
  it returns a single-channel output as a two-dimensional array.
\<close>

definition ref_warpAffine :: "image \<Rightarrow> rat list list \<Rightarrow> nat \<times> nat \<Rightarrow> error + image" where
  "ref_warpAffine img M dsize =
     (case dsize of (w, h) \<Rightarrow>
        (case shape img of
           sh # sw # ch \<Rightarrow>
             if prod_list (shape img) = 0 then Inl (External ''cv2.error: empty image'')
             else if 1 < length ch \<or> 32767 \<le> sh \<or> 32767 \<le> sw then
               Inl (External ''cv2.error: unsupported array'')
             else
               (case M of
                  [[a, b, tx], [c, d, ty]] \<Rightarrow>
                    if a = 1 \<and> b = 0 \<and> c = 0 \<and> d = 1 \<and> of_int \<lfloor>tx\<rfloor> = tx \<and> of_int \<lfloor>ty\<rfloor> = ty
                       \<and> sh = h \<and> sw = w
                    then Inr \<lparr>shape = h # w # (if ch = [1] then [] else ch),
                              pixels = shift_pixels h w (prod_list ch) \<lfloor>tx\<rfloor> \<lfloor>ty\<rfloor> (pixels img)\<rparr>
                    else Inr \<lparr>shape = h # w # (if ch = [1] then [] else ch),
                              pixels = replicate (h * w * prod_list ch) 0\<rparr>
                | _ \<Rightarrow> Inl (External ''cv2.error: a 2x3 matrix is expected''))
         | _ \<Rightarrow> Inl (External ''cv2.error: unsupported array'')))"

definition ref_getRotationMatrix2D ::
  "nat \<times> nat \<Rightarrow> rat pyval \<Rightarrow> rat \<Rightarrow> error + rat list list" where
  "ref_getRotationMatrix2D centre angle scale =
     (if angle = PInt 0 \<and> scale = 1 then Inr [[1, 0, 0], [0, 1, 0]]
      else Inl (External ''cv2.error: rotation outside the model''))"

definition ref_Canny :: "image \<Rightarrow> rat pyval \<Rightarrow> rat pyval \<Rightarrow> error + image" where
  "ref_Canny img low up =
     Inr \<lparr>shape = take 2 (shape img),
          pixels = replicate (prod_list (take 2 (shape img))) 0\<rparr>"

definition ref_median :: "image \<Rightarrow> error + rat" where
  "ref_median img =
     (let xs = sort (map uint (pixels img)); n = length xs in
      if n = 0 then Inl (External ''median of an empty array'')
      else if odd n then Inr (of_int (xs ! (n div 2)))
      else Inr ((of_int (xs ! (n div 2 - 1)) + of_int (xs ! (n div 2))) / 2))"

definition ref_urlopen :: "string \<Rightarrow> error + 8 word list" where
  "ref_urlopen url =
     (if url = ''http://localhost/pixel.png'' then Inr [137, 80, 78, 71]
      else Inl (External ''URLError''))"

definition test_library :: "(rat, rat list list, 8 word list) library" where
  "test_library =
     \<lparr>cv_cvtColor = ref_cvtColor,
      cv_warpAffine = ref_warpAffine,
      cv_getRotationMatrix2D = ref_getRotationMatrix2D,
      cv_Canny = ref_Canny,
      cv_mean = (\<lambda>img roi. Inl (External ''cv2.error'')),
      cv_imdecode = (\<lambda>buf flag. Inr None),
      np_float32 = ref_float32,
      median = ref_median,
      asarray = (\<lambda>body. Inr \<lparr>shape = [length body], pixels = body\<rparr>),
      urlopen = ref_urlopen,
      response_read = (\<lambda>response. Inr response),
      f_1_0 = 1,
      f_0_3 = 3 / 10,
      f_sub = (\<lambda>a b. a - b),
      f_add = (\<lambda>a b. a + b),
      f_mul = (\<lambda>a b. a * b),
      f_gt_int = (\<lambda>v i. of_int i < v),
      f_lt_int = (\<lambda>v i. v < of_int i),
      f_int = (\<lambda>v. Inr (if 0 \<le> v then \<lfloor>v\<rfloor> else \<lceil>v\<rceil>))\<rparr>"

section \<open>Properties of \<open>edges\<close>\<close>




text \<open>
  Claim C1. The call \<open>edges(img, threshold1=None, threshold2=None, use_median=True)\<close>
  raises the parameter-type validation error, for every image (also an absent one), every
  sigma and every library: the integer check on the two thresholds runs before the flag
  is consulted. More generally, in automatic mode every call in which one of the
  thresholds is not an int raises that error, so automatic mode cannot be entered without
  two integer thresholds.
\<close>

theorem edges_automatic_requires_integer_thresholds:
  "edges L img PNone PNone (PBool True) sigma
     = Inl (ValueError ''Threshold values must be integers'')
   \<and> (\<not> (isinstance_int t1 \<and> isinstance_int t2) \<longrightarrow>
        edges L img t1 t2 (PBool True) sigma
          = Inl (ValueError ''Threshold values must be integers''))"
  by (simp add: edges_def)

theorem edges_automatic_requires_integer_thresholds_witness:
  "\<not> (isinstance_int (PInt 50 :: rat pyval) \<and> isinstance_int (PFloat (3 / 2) :: rat pyval))
   \<and> edges test_library (Some \<lparr>shape = [1, 1], pixels = [100]\<rparr>) PNone PNone (PBool True) None
       = Inl (ValueError ''Threshold values must be integers'')
   \<and> edges test_library (Some \<lparr>shape = [1, 1], pixels = [100]\<rparr>)
         (PInt 50) (PFloat (3 / 2)) (PBool True) None
       = Inl (ValueError ''Threshold values must be integers'')"
  using edges_automatic_requires_integer_thresholds
    [where L = test_library and img = "Some \<lparr>shape = [1, 1], pixels = [100]\<rparr>"
       and sigma = None and ?t1.0 = "PInt 50" and ?t2.0 = "PFloat (3 / 2)"]
  by simp

text \<open>
  Claim C3. The claim is that a call in manual mode (\<open>use_median=False\<close>) with a
  threshold absent fails with the missing-threshold error \<open>Specify valid threshold values\<close>.
  The code has that check, but the integer check before it rejects \<open>None\<close> first: such a
  call raises \<open>Threshold values must be integers\<close>, and the missing-threshold branch is
  never reached with an absent threshold.
\<close>

theorem edges_manual_missing_threshold:
  assumes "t1 = PNone \<or> t2 = PNone"
  shows "edges L img t1 t2 (PBool False) sigma
           = Inl (ValueError ''Threshold values must be integers'')"
  using assms by (auto simp: edges_def)

theorem edges_manual_missing_threshold_witness:
  "edges test_library (Some \<lparr>shape = [1, 1], pixels = [100]\<rparr>) PNone (PInt 150) (PBool False) None
     = Inl (ValueError ''Threshold values must be integers'')
   \<and> edges test_library (Some \<lparr>shape = [1, 1], pixels = [100]\<rparr>) PNone (PInt 150) (PBool False) None
     \<noteq> Inl (ValueError ''Specify valid threshold values'')"
  using edges_manual_missing_threshold
    [where ?t1.0 = PNone and ?t2.0 = "PInt 150" and L = test_library
       and img = "Some \<lparr>shape = [1, 1], pixels = [100]\<rparr>" and sigma = None]
  by simp



text \<open>
  Claim C10. In automatic mode the thresholds are dead inputs: for every image (present
  or absent), every sigma and any two pairs of integer thresholds, \<open>edges\<close> gives the
  same outcome, result or exception. An int here is anything that passes
  \<open>isinstance(v, int)\<close>, so also a bool.
\<close>

theorem edges_automatic_ignores_thresholds:
  assumes "isinstance_int t1" and "isinstance_int t2"
    and "isinstance_int t1'" and "isinstance_int t2'"
  shows "edges L img t1 t2 (PBool True) sigma = edges L img t1' t2' (PBool True) sigma"
  using assms by (cases img) (simp_all add: edges_def)

theorem edges_automatic_ignores_thresholds_witness:
  "isinstance_int (PInt 0 :: rat pyval) \<and> isinstance_int (PInt 1 :: rat pyval)
   \<and> isinstance_int (PInt 200 :: rat pyval) \<and> isinstance_int (PBool True :: rat pyval)
   \<and> edges test_library (Some \<lparr>shape = [1, 1], pixels = [100]\<rparr>)
         (PInt 0) (PInt 1) (PBool True) (Some (1 / 2))
     = edges test_library (Some \<lparr>shape = [1, 1], pixels = [100]\<rparr>)
         (PInt 200) (PBool True) (PBool True) (Some (1 / 2))"
  using edges_automatic_ignores_thresholds [where ?t1.0 = "PInt 0" and ?t2.0 = "PInt 1"
      and t1' = "PInt 200" and t2' = "PBool True" and L = test_library
      and img = "Some \<lparr>shape = [1, 1], pixels = [100]\<rparr>" and sigma = "Some (1 / 2)"]
  by simp

section \<open>Properties of the colour conversions\<close>

text \<open>
  Claim C7. On a two-dimensional (grey) image each of the eight conversion functions
  raises its shape-validation error, the \<open>ValueError\<close> with the function's own message
  and the number of dimensions found. The statement holds for every library, so the
  outcome does not depend on any primitive: the error is returned before the conversion
  primitive could be applied.
\<close>

theorem color_conversions_reject_2d:
  assumes "length (shape img) = 2"
  shows "bgr_to_rgb L img = Inl (ValueError
           ''Image of shape 3 expected. Found shape 2. This method converts a BGR image to its RGB counterpart'')
       \<and> rgb_to_bgr L img = Inl (ValueError
           ''Image of shape 3 expected. Found shape 2. This method converts an RGB image to its BGR counterpart'')
       \<and> bgr_to_gray L img = Inl (ValueError
           ''Image of shape 3 expected. Found shape 2. This method converts a BGR image to its Grayscale counterpart'')
       \<and> rgb_to_gray L img = Inl (ValueError
           ''Image of shape 3 expected. Found shape 2. This method converts an RGB image to its Grayscale counterpart'')
       \<and> bgr_to_hsv L img = Inl (ValueError
           ''Image of shape 3 expected. Found shape 2. This method converts a BGR image to its HSV counterpart'')
       \<and> rgb_to_hsv L img = Inl (ValueError
           ''Image of shape 3 expected. Found shape 2. This method converts an RGB image to its HSV counterpart'')
       \<and> bgr_to_lab L img = Inl (ValueError
           ''Image of shape 3 expected. Found shape 2. This method converts a BGR image to its LAB counterpart'')
       \<and> rgb_to_lab L img = Inl (ValueError
           ''Image of shape 3 expected. Found shape 2. This method converts an RGB image to its LAB counterpart'')"
  using assms
  by (simp add: bgr_to_rgb_def rgb_to_bgr_def bgr_to_gray_def rgb_to_gray_def bgr_to_hsv_def
      rgb_to_hsv_def bgr_to_lab_def rgb_to_lab_def str_nat.simps)

theorem color_conversions_reject_2d_witness:
  "length (shape \<lparr>shape = [2, 2], pixels = [1, 2, 3, 4]\<rparr>) = 2
   \<and> bgr_to_rgb test_library \<lparr>shape = [2, 2], pixels = [1, 2, 3, 4]\<rparr> = Inl (ValueError
       ''Image of shape 3 expected. Found shape 2. This method converts a BGR image to its RGB counterpart'')
   \<and> rgb_to_lab test_library \<lparr>shape = [2, 2], pixels = [1, 2, 3, 4]\<rparr> = Inl (ValueError
       ''Image of shape 3 expected. Found shape 2. This method converts an RGB image to its LAB counterpart'')"
  using color_conversions_reject_2d
    [where img = "\<lparr>shape = [2, 2], pixels = [1, 2, 3, 4]\<rparr>" and L = test_library]
  by simp

lemma exchange_red_blue_twice: "exchange_red_blue (exchange_red_blue xs) = xs"
  by (induction xs rule: exchange_red_blue.induct) simp_all

lemma length_exchange_red_blue: "length (exchange_red_blue xs) = length xs"
  by (induction xs rule: exchange_red_blue.induct) simp_all

lemma test_library_exchanges: "cvtColor_exchanges_red_blue test_library"
  by (simp add: cvtColor_exchanges_red_blue_def test_library_def ref_cvtColor_def)

text \<open>
  Claim C6, as stated: for every three-dimensional image, \<open>rgb_to_bgr(bgr_to_rgb(img))\<close>
  equals the image. It fails on a three-dimensional image with four channels: both
  functions accept it (the validation only counts dimensions), the target space of the
  conversion has three channels, and what comes back has shape \<open>[1, 1, 3]\<close>, not
  \<open>[1, 1, 4]\<close>. It fails as well on the empty three-dimensional image of shape
  \<open>[0, 0, 3]\<close>, which passes the validation and is rejected by the primitive.
\<close>

theorem bgr_rgb_round_trip_four_channels:
  "length (shape \<lparr>shape = [1, 1, 4], pixels = [10, 20, 30, 40]\<rparr>) = 3
   \<and> (case bgr_to_rgb test_library \<lparr>shape = [1, 1, 4], pixels = [10, 20, 30, 40]\<rparr> of
         Inl e \<Rightarrow> Inl e | Inr rgb \<Rightarrow> rgb_to_bgr test_library rgb)
       = Inr \<lparr>shape = [1, 1, 3], pixels = [10, 20, 30]\<rparr>
   \<and> (case bgr_to_rgb test_library \<lparr>shape = [1, 1, 4], pixels = [10, 20, 30, 40]\<rparr> of
         Inl e \<Rightarrow> Inl e | Inr rgb \<Rightarrow> rgb_to_bgr test_library rgb)
       \<noteq> Inr \<lparr>shape = [1, 1, 4], pixels = [10, 20, 30, 40]\<rparr>
   \<and> length (shape \<lparr>shape = [0, 0, 3], pixels = []\<rparr>) = 3
   \<and> (case bgr_to_rgb test_library \<lparr>shape = [0, 0, 3], pixels = []\<rparr> of
         Inl e \<Rightarrow> Inl e | Inr rgb \<Rightarrow> rgb_to_bgr test_library rgb)
       = Inl (External ''cv2.error: empty image'')"
  by (simp add: bgr_to_rgb_def rgb_to_bgr_def test_library_def ref_cvtColor_def)

text \<open>
  Claim C6, amended: for every non-empty three-dimensional image with exactly three
  channels (shape \<open>[h, w, 3]\<close> with \<open>h\<close> and \<open>w\<close> positive, and the \<open>h * w * 3\<close> samples that
  every array of that shape has), \<open>rgb_to_bgr(bgr_to_rgb(img))\<close> returns a buffer equal to
  the original image, given that on such images the conversion primitive exchanges the
  first and the third channel. The intermediate image keeps its shape and its size, so
  it passes the validation of \<open>rgb_to_bgr\<close> and the primitive applies to it again, and
  exchanging twice restores every pixel.
\<close>

theorem bgr_rgb_round_trip:
  assumes "cvtColor_exchanges_red_blue L" and "shape img = [h, w, 3]"
    and "0 < h" and "0 < w" and "length (pixels img) = h * w * 3"
  shows "(case bgr_to_rgb L img of Inl e \<Rightarrow> Inl e | Inr rgb \<Rightarrow> rgb_to_bgr L rgb) = Inr img"
proof -
  let ?rgb = "img\<lparr>pixels := exchange_red_blue (pixels img)\<rparr>"
  have first: "cv_cvtColor L img BGR2RGB = Inr ?rgb"
    using assms unfolding cvtColor_exchanges_red_blue_def by blast
  have "shape ?rgb = [h, w, 3]" and "length (pixels ?rgb) = h * w * 3"
    using assms by (simp_all add: length_exchange_red_blue)
  with assms(1,3,4)
  have "cv_cvtColor L ?rgb RGB2BGR = Inr (?rgb\<lparr>pixels := exchange_red_blue (pixels ?rgb)\<rparr>)"
    unfolding cvtColor_exchanges_red_blue_def by blast
  then have second: "cv_cvtColor L ?rgb RGB2BGR = Inr img"
    by (simp add: exchange_red_blue_twice)
  from first second assms(2) show ?thesis
    by (simp add: bgr_to_rgb_def rgb_to_bgr_def)
qed

theorem bgr_rgb_round_trip_witness:
  "cvtColor_exchanges_red_blue test_library
   \<and> shape \<lparr>shape = [1, 2, 3], pixels = [10, 20, 30, 40, 50, 60]\<rparr> = [1, 2, 3]
   \<and> (0 :: nat) < 1 \<and> (0 :: nat) < 2
   \<and> length (pixels \<lparr>shape = [1, 2, 3], pixels = [10, 20, 30, 40, 50, 60]\<rparr>) = 1 * 2 * 3
   \<and> bgr_to_rgb test_library \<lparr>shape = [1, 2, 3], pixels = [10, 20, 30, 40, 50, 60]\<rparr>
       = Inr \<lparr>shape = [1, 2, 3], pixels = [30, 20, 10, 60, 50, 40]\<rparr>
   \<and> (case bgr_to_rgb test_library \<lparr>shape = [1, 2, 3], pixels = [10, 20, 30, 40, 50, 60]\<rparr> of
         Inl e \<Rightarrow> Inl e | Inr rgb \<Rightarrow> rgb_to_bgr test_library rgb)
       = Inr \<lparr>shape = [1, 2, 3], pixels = [10, 20, 30, 40, 50, 60]\<rparr>"
proof -
  have "bgr_to_rgb test_library \<lparr>shape = [1, 2, 3], pixels = [10, 20, 30, 40, 50, 60]\<rparr>
       = Inr \<lparr>shape = [1, 2, 3], pixels = [30, 20, 10, 60, 50, 40]\<rparr>"
    by (simp add: bgr_to_rgb_def test_library_def ref_cvtColor_def)
  then show ?thesis
    using bgr_rgb_round_trip [OF test_library_exchanges,
        where img = "\<lparr>shape = [1, 2, 3], pixels = [10, 20, 30, 40, 50, 60]\<rparr>"
          and h = 1 and w = 2]
      test_library_exchanges
    by simp
qed

section \<open>Properties of the geometric transforms\<close>










text \<open>
  Claim C2. The claim is that \<open>rotate\<close> rotates about the supplied centre when one is
  given. The code binds \<open>centre\<close> only when \<open>rotPoint\<close> is \<open>None\<close> and never reads
  \<open>rotPoint\<close>: with a centre supplied, on any image of at least two dimensions, the call
  raises \<open>UnboundLocalError\<close> before any primitive is applied.
\<close>

theorem rotate_supplied_centre_unbound:
  assumes "take 2 (shape img) = [h, w]"
  shows "rotate_image L img angle (Some centre) = Inl (UnboundLocalError ''centre'')"
  using assms by (simp add: rotate_image_def)

theorem rotate_supplied_centre_unbound_witness:
  "take 2 (shape \<lparr>shape = [2, 2], pixels = [1, 2, 3, 4]\<rparr>) = [2, 2]
   \<and> rotate_image test_library \<lparr>shape = [2, 2], pixels = [1, 2, 3, 4]\<rparr> (PInt 90)
        (Some (PInt 0, PInt 0))
     = Inl (UnboundLocalError ''centre'')"
  using rotate_supplied_centre_unbound
    [where img = "\<lparr>shape = [2, 2], pixels = [1, 2, 3, 4]\<rparr>" and h = 2 and w = 2
       and L = test_library and angle = "PInt 90" and centre = "(PInt 0, PInt 0)"]
  by simp

text \<open>
  With no centre supplied, on an image of at least two dimensions, \<open>rotate\<close> asks for
  the rotation matrix about \<open>(width // 2, height // 2)\<close> with scale 1.0, warps onto a
  canvas of the image's own width and height, and passes on an exception of either
  primitive unchanged.
\<close>

theorem rotate_default_centre:
  assumes "take 2 (shape img) = [h, w]"
  shows "rotate_image L img angle None =
          (case cv_getRotationMatrix2D L (w div 2, h div 2) angle (f_1_0 L) of
             Inl e \<Rightarrow> Inl e
           | Inr rotMat \<Rightarrow> cv_warpAffine L img rotMat (w, h))"
  using assms by (simp add: rotate_image_def)

theorem rotate_default_centre_witness:
  "take 2 (shape \<lparr>shape = [2, 2], pixels = [1, 2, 3, 4]\<rparr>) = [2, 2]
   \<and> cv_getRotationMatrix2D test_library (2 div 2, 2 div 2) (PInt 0) (f_1_0 test_library)
       = Inr [[1, 0, 0], [0, 1, 0]]
   \<and> rotate_image test_library \<lparr>shape = [2, 2], pixels = [1, 2, 3, 4]\<rparr> (PInt 0) None
       = Inr \<lparr>shape = [2, 2], pixels = [1, 2, 3, 4]\<rparr>"
proof -
  have m: "cv_getRotationMatrix2D test_library (2 div 2, 2 div 2) (PInt 0) (f_1_0 test_library)
       = Inr [[1, 0, 0], [0, 1, 0]]"
    by (simp add: test_library_def ref_getRotationMatrix2D_def)
  have w: "cv_warpAffine test_library \<lparr>shape = [2, 2], pixels = [1, 2, 3, 4]\<rparr>
             [[1, 0, 0], [0, 1, 0]] (2, 2)
       = Inr \<lparr>shape = [2, 2], pixels = [1, 2, 3, 4]\<rparr>"
    by (simp add: test_library_def ref_warpAffine_def shift_pixels_def shifted_cell_def
        upt_rec)
  show ?thesis
    using rotate_default_centre
      [where img = "\<lparr>shape = [2, 2], pixels = [1, 2, 3, 4]\<rparr>" and h = 2 and w = 2
         and L = test_library and angle = "PInt 0"] m w
    by simp
qed

section \<open>Properties of \<open>mean\<close>\<close>

text \<open>
  \<open>mean\<close> returns what the primitive returns, unchanged, and replaces any exception of the
  primitive by its own \<open>ValueError\<close>. How many averages there are is the primitive's
  business; the code neither computes nor checks it.
\<close>

lemma mean_passes_result_through:
  "cv_mean L img roi = Inr averages \<Longrightarrow> mean L img roi = Inr averages"
  by (simp add: mean_def)

lemma mean_rewraps_failure:
  "cv_mean L img roi = Inl e \<Longrightarrow> mean L img roi = Inl (ValueError ''mean() expects an image'')"
  by (simp add: mean_def)

section \<open>Properties of \<open>url_to_image\<close>\<close>




end
